theory Spec2Isabelle
  imports Main
begin

section \<open>Data model of api_server.py\<close>

text \<open>
  Messages of the conversation memory: the source tells the two roles apart with
  \<^verbatim>\<open>isinstance(m, HumanMessage)\<close>, so the role is the constructor.
\<close>

datatype message = HumanMessage string | AIMessage string

fun content :: "message \<Rightarrow> string" where
  "content (HumanMessage c) = c"
| "content (AIMessage c) = c"

fun is_human :: "message \<Rightarrow> bool" where
  "is_human (HumanMessage c) = True"
| "is_human (AIMessage c) = False"

text \<open>The client object built by \<^verbatim>\<open>LLM(secret_key=..., non_stream_url=..., stream_url=...)\<close>.\<close>

record llm_client =
  secret_key :: string
  non_stream_url :: string
  stream_url :: string

text \<open>
  A value of \<^verbatim>\<open>chat_sessions\<close>: the list held by the conversation memory, the client,
  the creation time and the counter.
\<close>

record session =
  memory :: "message list"
  llm :: llm_client
  created_at :: nat
  message_count :: nat

record file_info =
  path :: string
  fsize :: nat

text \<open>
  The three module-level dictionaries, together with the set of paths that exist on disk
  (\<^verbatim>\<open>os.path.exists\<close>, \<^verbatim>\<open>os.remove\<close>). A vector store is the list of chunk texts it
  indexes.
\<close>

record server_state =
  uploaded_files :: "string \<rightharpoonup> file_info"
  vector_stores :: "string \<rightharpoonup> string list"
  chat_sessions :: "string \<rightharpoonup> session"
  disk :: "string set"

text \<open>
  Exceptions of the source, as values. \<open>str_of\<close> is Python's \<^verbatim>\<open>str(e)\<close>; for a
  \<^verbatim>\<open>KeyError\<close> that is the key between quotes (a key with no quote or escape character in
  it).
\<close>

datatype error =
    FileNotFoundError string
  | ValueError string
  | JSONDecodeError string
  | KeyError string
  | ModelError string
  | OSError string

datatype http_error = HTTPException nat string

definition apos :: char where
  "apos = CHR 0x27"

definition nl :: string where
  "nl = [CHR 0x0A]"

fun str_of :: "error \<Rightarrow> string" where
  "str_of (FileNotFoundError m) = m"
| "str_of (ValueError m) = m"
| "str_of (JSONDecodeError m) = m"
| "str_of (KeyError k) = [apos] @ k @ [apos]"
| "str_of (ModelError m) = m"
| "str_of (OSError m) = m"

text \<open>Python's \<^verbatim>\<open>sep.join(xs)\<close>.\<close>

fun join :: "string \<Rightarrow> string list \<Rightarrow> string" where
  "join sep [] = []"
| "join sep [x] = x"
| "join sep (x # y # ys) = x @ sep @ join sep (y # ys)"

text \<open>Python's slice \<^verbatim>\<open>xs[-n:]\<close> for a positive \<open>n\<close>: the last \<open>n\<close> elements, or all of them.\<close>

definition py_last :: "nat \<Rightarrow> 'a list \<Rightarrow> 'a list" where
  "py_last n xs = drop (length xs - n) xs"

section \<open>What lies outside the process\<close>

text \<open>
  The file \<^verbatim>\<open>keys.txt\<close> is read again at every call of \<^verbatim>\<open>load_config\<close>: it is absent,
  or not JSON, or a JSON object.
\<close>

datatype keys_file = NoFile | Unparsable string | JsonObject "string \<rightharpoonup> string"

text \<open>
  The environment of one request: the keys file, the clock, the two capabilities of the
  model client of \<^verbatim>\<open>custom_langchain\<close> (taken as parameters: \<open>invoke\<close> returns the answer
  or raises, \<open>stream\<close> yields fragments and then either ends or raises), the search of
  the vector index library behind
  \<^verbatim>\<open>vector_store.as_retriever(search_kwargs={"k": k}).get_relevant_documents(q)\<close> (taken as a
  parameter as well: the store, \<open>k\<close> and the query give the page contents of the documents
  it finds), and the paths \<^verbatim>\<open>os.remove\<close> refuses to remove.
\<close>

record env =
  keys_txt :: keys_file
  now :: nat
  invoke :: "llm_client \<Rightarrow> string \<Rightarrow> string + string"
  stream :: "llm_client \<Rightarrow> string \<Rightarrow> string list \<times> string option"
  get_relevant_documents :: "string list \<Rightarrow> nat \<Rightarrow> string \<Rightarrow> string list"
  remove_error :: "string \<rightharpoonup> string"

section \<open>Helper functions\<close>

definition required_keys :: "string list" where
  "required_keys = [''API_KEY'', ''AI_Agent_URL'', ''AI_Agent_Stream_URL'']"

text \<open>Python's \<^verbatim>\<open>str\<close> of a list of strings, as the f-string of \<^verbatim>\<open>load_config\<close> prints it.\<close>

definition py_repr_list :: "string list \<Rightarrow> string" where
  "py_repr_list xs = ''['' @ join '', '' (map (\<lambda>x. [apos] @ x @ [apos]) xs) @ '']''"

definition load_config :: "env \<Rightarrow> error + (string \<rightharpoonup> string)" where
  "load_config e =
     (case keys_txt e of
        NoFile \<Rightarrow>
          Inl (FileNotFoundError
                 ''keys.txt not found. Please create it with your API configuration.'')
      | Unparsable m \<Rightarrow> Inl (JSONDecodeError m)
      | JsonObject config \<Rightarrow>
          (let missing_keys = filter (\<lambda>key. config key = None) required_keys
           in if missing_keys \<noteq> []
              then Inl (ValueError (''Missing keys in keys.txt: '' @ py_repr_list missing_keys))
              else Inr config))"

text \<open>Python's \<^verbatim>\<open>d[k]\<close>.\<close>

definition subscript :: "('k \<rightharpoonup> 'v) \<Rightarrow> 'k \<Rightarrow> ('k \<Rightarrow> string) \<Rightarrow> error + 'v" where
  "subscript d k show_key = (case d k of None \<Rightarrow> Inl (KeyError (show_key k)) | Some v \<Rightarrow> Inr v)"

definition get_or_create_session :: "env \<Rightarrow> string \<Rightarrow> server_state \<Rightarrow> (error + session) \<times> server_state" where
  "get_or_create_session e session_id s =
     (case chat_sessions s session_id of
        Some sess \<Rightarrow> (Inr sess, s)
      | None \<Rightarrow>
          (case load_config e of
             Inl err \<Rightarrow> (Inl err, s)
           | Inr config \<Rightarrow>
               (case subscript config ''API_KEY'' id of
                  Inl err \<Rightarrow> (Inl err, s)
                | Inr k \<Rightarrow>
               (case subscript config ''AI_Agent_URL'' id of
                  Inl err \<Rightarrow> (Inl err, s)
                | Inr u \<Rightarrow>
               (case subscript config ''AI_Agent_Stream_URL'' id of
                  Inl err \<Rightarrow> (Inl err, s)
                | Inr su \<Rightarrow>
                    (let sess = \<lparr>memory = [],
                                 llm = \<lparr>secret_key = k, non_stream_url = u, stream_url = su\<rparr>,
                                 created_at = now e,
                                 message_count = 0\<rparr>
                     in (Inr sess, s\<lparr>chat_sessions := (chat_sessions s)(session_id \<mapsto> sess)\<rparr>)))))))"

definition render_message :: "message \<Rightarrow> string" where
  "render_message m = (if is_human m then ''User'' else ''Assistant'') @ '': '' @ content m"

definition history_text :: "message list \<Rightarrow> string" where
  "history_text history_messages =
     (if history_messages \<noteq> []
      then nl @ nl @ ''Previous conversation:'' @ nl
           @ join nl (map render_message (py_last 10 history_messages))
      else [])"

definition system_instruction :: string where
  "system_instruction =
     ''You are an AI assistant specialized ONLY in summarizing a text/pdf, comparing two text snippets/pdfs, ''
     @ ''and answering questions based on the provided PDF document context.'' @ nl
     @ ''DO NOT answer questions unrelated to the PDFs or these tasks.'' @ nl
     @ ''If a question is outside your scope, respond politely with: ''
     @ [apos] @ ''Sorry, I can only assist with information from the PDFs provided.'' @ [apos]
     @ nl @ nl"

definition build_strict_prompt :: "string \<Rightarrow> message list \<Rightarrow> string \<Rightarrow> string" where
  "build_strict_prompt context history_messages user_message =
     (if context \<noteq> []
      then system_instruction
           @ (''Document Context:'' @ nl @ context @ nl @ nl)
           @ history_text history_messages @ (nl @ nl)
           @ (''User: '' @ user_message @ nl @ nl @ ''Assistant:'')
      else system_instruction
           @ history_text history_messages @ (nl @ nl)
           @ (''User: '' @ user_message @ nl @ nl @ ''Assistant:''))"

section \<open>Requests and responses\<close>

record chat_request =
  message :: string
  session_id :: string
  filename :: "string option"

text \<open>
  The body of a chat response and of the last events of a stream. The error event of the
  stream has no \<^verbatim>\<open>sources\<close> key.
\<close>

record chat_response =
  r_content :: string
  r_sources :: "string list option"
  r_session_id :: string
  r_success :: bool

datatype sse_event = ChunkEvent string | ResponseEvent chat_response | DoneMarker

record delete_result =
  d_success :: bool
  d_message :: "string option"

record history_entry =
  h_role :: string
  h_content :: string
  h_timestamp :: nat


text \<open>
  Python's truth value of \<^verbatim>\<open>request.filename\<close>, an optional string: the name when it is
  neither \<^verbatim>\<open>None\<close> nor empty.
\<close>

definition truthy_name :: "string option \<Rightarrow> string option" where
  "truthy_name f = (case f of None \<Rightarrow> None | Some n \<Rightarrow> if n \<noteq> [] then Some n else None)"

section \<open>Retrieval\<close>

text \<open>
  The retrieval step that both chat endpoints spell out: nothing without a file name,
  else what the retriever finds for \<open>k = 3\<close>, joined into the context and listed as sources.
\<close>

definition retrieve_context :: "env \<Rightarrow> chat_request \<Rightarrow> server_state \<Rightarrow> error + string \<times> string list" where
  "retrieve_context e request s =
     (case truthy_name (filename request) of
        None \<Rightarrow> Inr ([], [])
      | Some n \<Rightarrow>
          (case subscript (vector_stores s) n id of
             Inl err \<Rightarrow> Inl err
           | Inr vector_store \<Rightarrow>
               (let relevant_docs = get_relevant_documents e vector_store 3 (message request)
                in Inr (join (nl @ nl) relevant_docs, relevant_docs))))"

section \<open>Endpoints\<close>

text \<open>
  The three updates after the model answered: the user message and the answer are
  appended to the memory of the session object, and its counter goes up by one.
\<close>

definition record_turn :: "string \<Rightarrow> session \<Rightarrow> string \<Rightarrow> string \<Rightarrow> server_state \<Rightarrow> server_state" where
  "record_turn sid sess user_message response s =
     s\<lparr>chat_sessions := (chat_sessions s)(sid \<mapsto>
          sess\<lparr>memory := memory sess @ [HumanMessage user_message, AIMessage response],
               message_count := message_count sess + 1\<rparr>)\<rparr>"

text \<open>The body of the \<^verbatim>\<open>try\<close> of \<^verbatim>\<open>chat_message\<close>.\<close>

definition chat_message_try :: "env \<Rightarrow> chat_request \<Rightarrow> server_state \<Rightarrow> (error + chat_response) \<times> server_state" where
  "chat_message_try e request s =
     (case get_or_create_session e (session_id request) s of
        (Inl err, s1) \<Rightarrow> (Inl err, s1)
      | (Inr sess, s1) \<Rightarrow>
          (case retrieve_context e request s1 of
             Inl err \<Rightarrow> (Inl err, s1)
           | Inr (context, sources) \<Rightarrow>
               (let prompt = build_strict_prompt context (memory sess) (message request)
                in case invoke e (llm sess) prompt of
                     Inl m \<Rightarrow> (Inl (ModelError m), s1)
                   | Inr response \<Rightarrow>
                       (Inr \<lparr>r_content = response, r_sources = Some sources,
                             r_session_id = session_id request, r_success = True\<rparr>,
                        record_turn (session_id request) sess (message request) response s1))))"

definition chat_message :: "env \<Rightarrow> chat_request \<Rightarrow> server_state \<Rightarrow> (http_error + chat_response) \<times> server_state" where
  "chat_message e request s =
     (case truthy_name (filename request) of
        Some n \<Rightarrow>
          if vector_stores s n = None
          then (Inl (HTTPException 400 ''PDF not found. Upload before chatting.''), s)
          else (case chat_message_try e request s of
                  (Inl err, s') \<Rightarrow> (Inl (HTTPException 500 (''Chat error: '' @ str_of err)), s')
                | (Inr r, s') \<Rightarrow> (Inr r, s'))
      | None \<Rightarrow>
          (case chat_message_try e request s of
             (Inl err, s') \<Rightarrow> (Inl (HTTPException 500 (''Chat error: '' @ str_of err)), s')
           | (Inr r, s') \<Rightarrow> (Inr r, s')))"

text \<open>The two events of the \<^verbatim>\<open>except\<close> branch of \<^verbatim>\<open>generate_stream\<close>.\<close>

definition error_events :: "chat_request \<Rightarrow> error \<Rightarrow> sse_event list" where
  "error_events request err =
     [ResponseEvent \<lparr>r_content = ''Error: '' @ str_of err, r_sources = None,
                     r_session_id = session_id request, r_success = False\<rparr>,
      DoneMarker]"

text \<open>
  \<^verbatim>\<open>chat_message_stream\<close>: the events of the generator, in the order it yields them, and the
  state it leaves. There is no check of the file name before the generator starts.
\<close>

definition generate_stream :: "env \<Rightarrow> chat_request \<Rightarrow> server_state \<Rightarrow> sse_event list \<times> server_state" where
  "generate_stream e request s =
     (case get_or_create_session e (session_id request) s of
        (Inl err, s1) \<Rightarrow> (error_events request err, s1)
      | (Inr sess, s1) \<Rightarrow>
          (case retrieve_context e request s1 of
             Inl err \<Rightarrow> (error_events request err, s1)
           | Inr (context, sources) \<Rightarrow>
               (let prompt = build_strict_prompt context (memory sess) (message request)
                in case stream e (llm sess) prompt of
                     (response_chunks, Some m) \<Rightarrow>
                       (map ChunkEvent response_chunks @ error_events request (ModelError m), s1)
                   | (response_chunks, None) \<Rightarrow>
                       (let full_response = concat response_chunks
                        in (map ChunkEvent response_chunks
                            @ [ResponseEvent \<lparr>r_content = full_response, r_sources = Some sources,
                                               r_session_id = session_id request, r_success = True\<rparr>,
                                DoneMarker],
                            record_turn (session_id request) sess (message request) full_response s1)))))"

definition get_chat_history :: "string \<Rightarrow> server_state \<Rightarrow> history_entry list" where
  "get_chat_history sid s =
     (case chat_sessions s sid of
        None \<Rightarrow> []
      | Some sess \<Rightarrow>
          map (\<lambda>m. \<lparr>h_role = (if is_human m then ''user'' else ''assistant''),
                     h_content = content m,
                     h_timestamp = created_at sess\<rparr>) (memory sess))"

definition clear_chat_session :: "string \<Rightarrow> server_state \<Rightarrow> bool \<times> server_state" where
  "clear_chat_session sid s = (True, s\<lparr>chat_sessions := (chat_sessions s)(sid := None)\<rparr>)"

text \<open>
  \<^verbatim>\<open>delete_file\<close>: both dictionaries drop the name first; the file is removed from disk
  only when the name was an uploaded file whose path still exists.
\<close>

definition delete_file :: "env \<Rightarrow> string \<Rightarrow> server_state \<Rightarrow> (http_error + delete_result) \<times> server_state" where
  "delete_file e fname s =
     (let file_info = uploaded_files s fname;
          s1 = s\<lparr>uploaded_files := (uploaded_files s)(fname := None),
                 vector_stores := (vector_stores s)(fname := None)\<rparr>
      in case file_info of
           None \<Rightarrow> (Inr \<lparr>d_success = False, d_message = Some ''File not found''\<rparr>, s1)
         | Some fi \<Rightarrow>
             if path fi \<in> disk s1
             then (case remove_error e (path fi) of
                     None \<Rightarrow> (Inr \<lparr>d_success = True, d_message = None\<rparr>,
                              s1\<lparr>disk := disk s1 - {path fi}\<rparr>)
                   | Some m \<Rightarrow>
                       (Inr \<lparr>d_success = False,
                             d_message = Some (''Error deleting file: '' @ m)\<rparr>, s1))
             else (Inr \<lparr>d_success = False, d_message = Some ''File not found''\<rparr>, s1))"



text \<open>The sentence the system instruction prescribes for questions out of scope.\<close>
definition refusal_sentence :: string where
  "refusal_sentence = ''Sorry, I can only assist with information from the PDFs provided.''"

text \<open>The fragments a stream has emitted, in the order of emission.\<close>

fun emitted_fragments :: "sse_event list \<Rightarrow> string list" where
  "emitted_fragments [] = []"
| "emitted_fragments (ChunkEvent c # evs) = c # emitted_fragments evs"
| "emitted_fragments (ev # evs) = emitted_fragments evs"

text \<open>What the history operation shows of a message: its role and its content.\<close>

definition history_view :: "message \<Rightarrow> string \<times> string" where
  "history_view m = (if is_human m then ''user'' else ''assistant'', content m)"

section \<open>Concrete inputs\<close>

text \<open>
  A client, environments (complete keys file, no keys file, a model whose stream breaks
  after one fragment) and states on which the theorems below are run.
\<close>

definition ex_client :: llm_client where
  "ex_client = \<lparr>secret_key = ''k'', non_stream_url = ''u'', stream_url = ''su''\<rparr>"

definition ex_env :: env where
  "ex_env = \<lparr>keys_txt = JsonObject [''API_KEY'' \<mapsto> ''k'', ''AI_Agent_URL'' \<mapsto> ''u'',
                                     ''AI_Agent_Stream_URL'' \<mapsto> ''su''],
             now = 7,
             invoke = (\<lambda>c p. Inr ''Hello world''),
             stream = (\<lambda>c p. ([''Hello'', '' world''], None)),
             get_relevant_documents = (\<lambda>store k q. take k store),
             remove_error = Map.empty\<rparr>"

definition ex_env_nokeys :: env where
  "ex_env_nokeys = ex_env\<lparr>keys_txt := NoFile\<rparr>"

definition ex_env_broken_stream :: env where
  "ex_env_broken_stream = ex_env\<lparr>stream := (\<lambda>c p. ([''Hel''], Some ''connection reset''))\<rparr>"

definition empty_state :: server_state where
  "empty_state = \<lparr>uploaded_files = Map.empty, vector_stores = Map.empty,
                  chat_sessions = Map.empty, disk = {}\<rparr>"

definition ex_session :: session where
  "ex_session = \<lparr>memory = [], llm = ex_client, created_at = 7, message_count = 0\<rparr>"

text \<open>
  A server after the upload of \<^verbatim>\<open>a.pdf\<close>, an environment in which the removal of that file
  raises, and the state the delete leaves there.
\<close>

definition ex_state_uploaded :: server_state where
  "ex_state_uploaded =
     \<lparr>uploaded_files = [''a.pdf'' \<mapsto> \<lparr>path = ''./tmp_uploads/a.pdf'', fsize = 10\<rparr>],
      vector_stores = [''a.pdf'' \<mapsto> [''chunk one'']],
      chat_sessions = Map.empty,
      disk = {''./tmp_uploads'', ''./tmp_uploads/a.pdf''}\<rparr>"

definition ex_env_locked :: env where
  "ex_env_locked = ex_env\<lparr>remove_error := [''./tmp_uploads/a.pdf'' \<mapsto> ''Permission denied'']\<rparr>"

definition ex_state_deleted :: server_state where
  "ex_state_deleted =
     \<lparr>uploaded_files = Map.empty, vector_stores = Map.empty, chat_sessions = Map.empty,
      disk = {''./tmp_uploads'', ''./tmp_uploads/a.pdf''}\<rparr>"


definition ex_recent :: "message list" where
  "ex_recent = [HumanMessage ''q1'', AIMessage ''a1'', HumanMessage ''q2'', AIMessage ''a2'',
                HumanMessage ''q3'', AIMessage ''a3'', HumanMessage ''q4'', AIMessage ''a4'',
                HumanMessage ''q5'', AIMessage ''a5'']"

definition ex_older :: "message list" where
  "ex_older = [HumanMessage ''q0'', AIMessage ''a0'']"

section \<open>Verified properties\<close>

subsection \<open>Prompt assembly\<close>

text \<open>
  C4. For every context, history and user message the prompt is the system instruction,
  then the document context block (present exactly when the context is not empty), then
  the rendered history followed by the new user turn; and the system instruction contains
  the quoted refusal sentence.
\<close>

theorem build_strict_prompt_structure:
  "build_strict_prompt context h u =
     system_instruction
     @ (if context = [] then [] else ''Document Context:'' @ nl @ context @ nl @ nl)
     @ (history_text h @ nl @ nl @ ''User: '' @ u @ nl @ nl @ ''Assistant:'')
   \<and> (\<exists>pre post. system_instruction = pre @ [apos] @ refusal_sentence @ [apos] @ post)"
proof
  show "build_strict_prompt context h u =
     system_instruction
     @ (if context = [] then [] else ''Document Context:'' @ nl @ context @ nl @ nl)
     @ (history_text h @ nl @ nl @ ''User: '' @ u @ nl @ nl @ ''Assistant:'')"
    by (simp add: build_strict_prompt_def)
next
  have "system_instruction =
     (''You are an AI assistant specialized ONLY in summarizing a text/pdf, comparing two text snippets/pdfs, ''
     @ ''and answering questions based on the provided PDF document context.'' @ nl
     @ ''DO NOT answer questions unrelated to the PDFs or these tasks.'' @ nl
     @ ''If a question is outside your scope, respond politely with: '')
     @ [apos] @ refusal_sentence @ [apos] @ (nl @ nl)"
    by (simp add: system_instruction_def refusal_sentence_def)
  then show "\<exists>pre post. system_instruction = pre @ [apos] @ refusal_sentence @ [apos] @ post"
    by blast
qed

theorem build_strict_prompt_structure_witness:
  "build_strict_prompt ''ctx'' [HumanMessage ''hi'', AIMessage ''yo''] ''q'' =
     system_instruction @ ''Document Context:'' @ nl @ ''ctx'' @ nl @ nl
       @ nl @ nl @ ''Previous conversation:'' @ nl @ ''User: hi'' @ nl @ ''Assistant: yo'' @ nl @ nl
       @ ''User: q'' @ nl @ nl @ ''Assistant:''
   \<and> build_strict_prompt [] [] ''q'' = system_instruction @ nl @ nl @ ''User: q'' @ nl @ nl @ ''Assistant:''"
  using build_strict_prompt_structure [of "''ctx''" "[HumanMessage ''hi'', AIMessage ''yo'']" "''q''"]
        build_strict_prompt_structure [of "[]" "[]" "''q''"]
  by (simp add: history_text_def py_last_def render_message_def)

subsection \<open>Session store\<close>

lemma get_or_create_session_existing:
  "chat_sessions s sid = Some sess \<Longrightarrow> get_or_create_session e sid s = (Inr sess, s)"
  by (simp add: get_or_create_session_def)

lemma get_or_create_session_result:
  "get_or_create_session e sid s = (Inr sess, s1) \<Longrightarrow>
     chat_sessions s1 sid = Some sess \<and>
     (chat_sessions s sid = Some sess \<and> s1 = s \<or>
      chat_sessions s sid = None \<and> memory sess = [] \<and> message_count sess = 0 \<and>
      s1 = s\<lparr>chat_sessions := (chat_sessions s)(sid \<mapsto> sess)\<rparr>)"
  by (auto simp: get_or_create_session_def Let_def split: option.splits sum.splits)

lemma get_or_create_session_failure:
  "get_or_create_session e sid s = (Inl err, s1) \<Longrightarrow> s1 = s \<and> chat_sessions s sid = None"
  by (auto simp: get_or_create_session_def Let_def split: option.splits sum.splits)

text \<open>
  C8. \<^verbatim>\<open>get_or_create_session\<close> is idempotent: a session that exists is returned as it
  is and the state stays the same; a second call right after the first returns the same
  result and changes nothing (whatever the keys file holds by then, once the session
  exists); a session that had to be created has an empty memory and counter zero.
\<close>

theorem get_or_create_session_idempotent:
  assumes "get_or_create_session e sid s = (r, s1)"
  shows "(\<forall>old. chat_sessions s sid = Some old \<longrightarrow> r = Inr old \<and> s1 = s)
       \<and> get_or_create_session e sid s1 = (r, s1)
       \<and> (\<forall>sess e'. r = Inr sess \<longrightarrow> get_or_create_session e' sid s1 = (Inr sess, s1))
       \<and> (\<forall>sess. chat_sessions s sid = None \<longrightarrow> r = Inr sess \<longrightarrow>
             memory sess = [] \<and> message_count sess = 0 \<and> chat_sessions s1 sid = Some sess)"
proof (cases r)
  case (Inl err)
  with assms have "s1 = s" "chat_sessions s sid = None"
    using get_or_create_session_failure by blast+
  with assms Inl show ?thesis by simp
next
  case (Inr sess)
  with assms have r: "chat_sessions s1 sid = Some sess"
     "chat_sessions s sid = Some sess \<and> s1 = s \<or>
      chat_sessions s sid = None \<and> memory sess = [] \<and> message_count sess = 0 \<and>
      s1 = s\<lparr>chat_sessions := (chat_sessions s)(sid \<mapsto> sess)\<rparr>"
    using get_or_create_session_result by blast+
  have "\<And>e'. get_or_create_session e' sid s1 = (Inr sess, s1)"
    using r(1) by (rule get_or_create_session_existing)
  with r Inr show ?thesis by auto
qed

lemma ex_env_creates:
  "get_or_create_session ex_env ''s1'' empty_state =
     (Inr ex_session, empty_state\<lparr>chat_sessions := [''s1'' \<mapsto> ex_session]\<rparr>)"
  by (simp add: get_or_create_session_def load_config_def ex_env_def required_keys_def
        subscript_def empty_state_def ex_session_def ex_client_def Let_def)

theorem get_or_create_session_idempotent_witness:
  "get_or_create_session ex_env ''s1'' empty_state =
     (Inr ex_session, empty_state\<lparr>chat_sessions := [''s1'' \<mapsto> ex_session]\<rparr>)
   \<and> get_or_create_session ex_env_nokeys ''s1'' (empty_state\<lparr>chat_sessions := [''s1'' \<mapsto> ex_session]\<rparr>) =
     (Inr ex_session, empty_state\<lparr>chat_sessions := [''s1'' \<mapsto> ex_session]\<rparr>)
   \<and> memory ex_session = [] \<and> message_count ex_session = 0"
  using get_or_create_session_idempotent [OF ex_env_creates] ex_env_creates
  by (simp add: empty_state_def)

subsection \<open>Deleting a document\<close>

text \<open>
  C9. Deleting a name that is not an uploaded file returns the result with the success
  flag false (a result, not an exception); the document map and the disk stay as they
  were, and so does the index map when the name has no index; a second delete of the same
  name returns the same failure and leaves the whole state unchanged.
\<close>

theorem delete_file_not_live:
  assumes "uploaded_files s fname = None" and "delete_file e fname s = (r, s1)"
  shows "r = Inr \<lparr>d_success = False, d_message = Some ''File not found''\<rparr>
       \<and> uploaded_files s1 = uploaded_files s \<and> disk s1 = disk s
       \<and> (vector_stores s fname = None \<longrightarrow> s1 = s)
       \<and> (\<forall>e'. delete_file e' fname s1 = (r, s1))"
proof -
  from assms have r: "r = Inr \<lparr>d_success = False, d_message = Some ''File not found''\<rparr>"
    and s1: "s1 = s\<lparr>uploaded_files := (uploaded_files s)(fname := None),
                    vector_stores := (vector_stores s)(fname := None)\<rparr>"
    by (auto simp: delete_file_def Let_def)
  have u: "(uploaded_files s)(fname := None) = uploaded_files s"
    using assms(1) by (metis fun_upd_triv)
  have "\<And>e'. delete_file e' fname s1 = (r, s1)"
    by (simp add: delete_file_def Let_def s1 r assms(1))
  moreover have "vector_stores s fname = None \<longrightarrow> s1 = s"
    using u by (auto simp: s1 dest: fun_upd_idem[of "vector_stores s" fname None])
  ultimately show ?thesis using r s1 u by simp
qed

theorem delete_file_not_live_witness:
  "delete_file ex_env ''a.pdf'' empty_state =
     (Inr \<lparr>d_success = False, d_message = Some ''File not found''\<rparr>, empty_state)"
proof -
  have u: "uploaded_files empty_state ''a.pdf'' = None"
    by (simp add: empty_state_def)
  have v: "vector_stores empty_state ''a.pdf'' = None"
    by (simp add: empty_state_def)
  obtain r s1 where d: "delete_file ex_env ''a.pdf'' empty_state = (r, s1)"
    by (cases "delete_file ex_env ''a.pdf'' empty_state")
  from delete_file_not_live [OF u d] v d show ?thesis by simp
qed

text \<open>
  C10, as the code has it. Whatever result \<^verbatim>\<open>delete_file\<close> returns, no vector store is
  registered under the name afterwards, and a request to \<^verbatim>\<open>chat_message\<close> that names it
  (a name that is not empty) is rejected with the not-found failure, leaving the state as
  it is.
\<close>

theorem delete_file_removes_index:
  assumes "delete_file e fname s = (r, s1)"
  shows "vector_stores s1 fname = None
       \<and> (\<forall>e' request. filename request = Some fname \<longrightarrow> fname \<noteq> [] \<longrightarrow>
             chat_message e' request s1 =
               (Inl (HTTPException 400 ''PDF not found. Upload before chatting.''), s1))"
proof -
  from assms have v: "vector_stores s1 fname = None"
    by (auto simp: delete_file_def Let_def split: option.splits if_splits)
  then show ?thesis
    by (simp add: chat_message_def truthy_name_def)
qed

lemma ex_delete_locked:
  "delete_file ex_env_locked ''a.pdf'' ex_state_uploaded =
     (Inr \<lparr>d_success = False, d_message = Some ''Error deleting file: Permission denied''\<rparr>,
      ex_state_deleted)"
  by (simp add: delete_file_def ex_state_uploaded_def ex_state_deleted_def ex_env_locked_def
        ex_env_def Let_def)

theorem delete_file_removes_index_witness:
  "delete_file ex_env_locked ''a.pdf'' ex_state_uploaded =
     (Inr \<lparr>d_success = False, d_message = Some ''Error deleting file: Permission denied''\<rparr>,
      ex_state_deleted)
   \<and> vector_stores ex_state_uploaded ''a.pdf'' = Some [''chunk one'']
   \<and> vector_stores ex_state_deleted ''a.pdf'' = None
   \<and> chat_message ex_env \<lparr>message = ''hi'', session_id = ''s1'', filename = Some ''a.pdf''\<rparr>
         ex_state_deleted =
       (Inl (HTTPException 400 ''PDF not found. Upload before chatting.''), ex_state_deleted)"
proof -
  have u: "vector_stores ex_state_uploaded ''a.pdf'' = Some [''chunk one'']"
    by (simp add: ex_state_uploaded_def)
  from delete_file_removes_index [OF ex_delete_locked] ex_delete_locked u show ?thesis
    by simp
qed

text \<open>
  After that delete, a streaming request that names the file is not rejected with the
  not-found failure: the generator creates the session and ends with the event of the key
  error. And a request whose file name is the empty string names no document for
  \<^verbatim>\<open>chat_message\<close>: after the delete of the empty name it is answered.
\<close>

theorem chat_after_delete_counterexample:
  "delete_file ex_env_locked ''a.pdf'' ex_state_uploaded =
     (Inr \<lparr>d_success = False, d_message = Some ''Error deleting file: Permission denied''\<rparr>,
      ex_state_deleted)
   \<and> generate_stream ex_env \<lparr>message = ''hi'', session_id = ''s1'', filename = Some ''a.pdf''\<rparr>
         ex_state_deleted =
       ([ResponseEvent \<lparr>r_content = ''Error: '' @ [apos] @ ''a.pdf'' @ [apos], r_sources = None,
                         r_session_id = ''s1'', r_success = False\<rparr>,
         DoneMarker],
        ex_state_deleted\<lparr>chat_sessions := [''s1'' \<mapsto> ex_session]\<rparr>)
   \<and> delete_file ex_env [] empty_state =
       (Inr \<lparr>d_success = False, d_message = Some ''File not found''\<rparr>, empty_state)
   \<and> chat_message ex_env \<lparr>message = ''hi'', session_id = ''s1'', filename = Some []\<rparr> empty_state =
       (Inr \<lparr>r_content = ''Hello world'', r_sources = Some [], r_session_id = ''s1'',
             r_success = True\<rparr>,
        empty_state\<lparr>chat_sessions := [''s1'' \<mapsto>
          ex_session\<lparr>memory := [HumanMessage ''hi'', AIMessage ''Hello world''],
                     message_count := 1\<rparr>]\<rparr>)"
proof -
  have g: "generate_stream ex_env \<lparr>message = ''hi'', session_id = ''s1'', filename = Some ''a.pdf''\<rparr>
         ex_state_deleted =
       ([ResponseEvent \<lparr>r_content = ''Error: '' @ [apos] @ ''a.pdf'' @ [apos], r_sources = None,
                         r_session_id = ''s1'', r_success = False\<rparr>,
         DoneMarker],
        ex_state_deleted\<lparr>chat_sessions := [''s1'' \<mapsto> ex_session]\<rparr>)"
    by (simp add: generate_stream_def get_or_create_session_def load_config_def ex_env_def
          required_keys_def subscript_def ex_state_deleted_def ex_session_def ex_client_def
          retrieve_context_def truthy_name_def error_events_def Let_def)
  have d: "delete_file ex_env [] empty_state =
       (Inr \<lparr>d_success = False, d_message = Some ''File not found''\<rparr>, empty_state)"
    by (simp add: delete_file_def empty_state_def Let_def)
  have c: "chat_message ex_env \<lparr>message = ''hi'', session_id = ''s1'', filename = Some []\<rparr> empty_state =
       (Inr \<lparr>r_content = ''Hello world'', r_sources = Some [], r_session_id = ''s1'',
             r_success = True\<rparr>,
        empty_state\<lparr>chat_sessions := [''s1'' \<mapsto>
          ex_session\<lparr>memory := [HumanMessage ''hi'', AIMessage ''Hello world''],
                     message_count := 1\<rparr>]\<rparr>)"
    by (simp add: chat_message_def truthy_name_def chat_message_try_def get_or_create_session_def
          load_config_def required_keys_def subscript_def retrieve_context_def record_turn_def
          ex_env_def ex_session_def ex_client_def empty_state_def Let_def)
  from ex_delete_locked g d c show ?thesis by blast
qed

subsection \<open>Streaming and batch chat\<close>

lemma emitted_fragments_chunks:
  "emitted_fragments (map ChunkEvent cs @ [ResponseEvent r, DoneMarker]) = cs"
  by (induction cs) simp_all

lemma get_chat_history_after_create:
  assumes "get_or_create_session e sid s = (Inr sess, s1)" "chat_sessions s sid = None"
  shows "get_chat_history sid' s1 = get_chat_history sid' s"
  using get_or_create_session_result [OF assms(1)] assms(2)
  by (auto simp: get_chat_history_def)

text \<open>
  C1. When the stream of the model raises after some fragments (possibly none), the
  generator yields those fragments, then the event with content \<^verbatim>\<open>Error: \<close> followed by
  the description of the error and success false, then the end marker. No turn is
  recorded: the history of every session reads as before; a session that existed is
  untouched, and a session first referenced by this request is left with an empty memory
  and counter zero.
\<close>

theorem generate_stream_model_failure:
  assumes "get_or_create_session e (session_id request) s = (Inr sess, s1)"
      and "retrieve_context e request s1 = Inr (context, sources)"
      and "stream e (llm sess) (build_strict_prompt context (memory sess) (message request))
             = (fragments, Some m)"
  shows "generate_stream e request s =
           (map ChunkEvent fragments
            @ [ResponseEvent \<lparr>r_content = ''Error: '' @ m, r_sources = None,
                               r_session_id = session_id request, r_success = False\<rparr>,
               DoneMarker], s1)
       \<and> (\<forall>sid. get_chat_history sid s1 = get_chat_history sid s)
       \<and> (\<forall>old. chat_sessions s (session_id request) = Some old \<longrightarrow> s1 = s)
       \<and> (chat_sessions s (session_id request) = None \<longrightarrow>
            memory sess = [] \<and> message_count sess = 0 \<and>
            s1 = s\<lparr>chat_sessions := (chat_sessions s)(session_id request \<mapsto> sess)\<rparr>)"
proof -
  have g: "generate_stream e request s =
           (map ChunkEvent fragments
            @ [ResponseEvent \<lparr>r_content = ''Error: '' @ m, r_sources = None,
                               r_session_id = session_id request, r_success = False\<rparr>,
               DoneMarker], s1)"
    using assms by (simp add: generate_stream_def error_events_def)
  note r = get_or_create_session_result [OF assms(1)]
  have h: "\<forall>sid. get_chat_history sid s1 = get_chat_history sid s"
  proof (cases "chat_sessions s (session_id request)")
    case None
    then show ?thesis using get_chat_history_after_create [OF assms(1)] by simp
  next
    case (Some old)
    with r show ?thesis by auto
  qed
  from g h r show ?thesis by auto
qed

lemma ex_env_broken_creates:
  "get_or_create_session ex_env_broken_stream ''s1'' empty_state =
     (Inr ex_session, empty_state\<lparr>chat_sessions := [''s1'' \<mapsto> ex_session]\<rparr>)"
  by (simp add: get_or_create_session_def load_config_def ex_env_def ex_env_broken_stream_def
        required_keys_def subscript_def empty_state_def ex_session_def ex_client_def Let_def)

theorem generate_stream_model_failure_witness:
  "generate_stream ex_env_broken_stream
       \<lparr>message = ''hi'', session_id = ''s1'', filename = None\<rparr> empty_state =
     ([ChunkEvent ''Hel'',
       ResponseEvent \<lparr>r_content = ''Error: connection reset'', r_sources = None,
                       r_session_id = ''s1'', r_success = False\<rparr>,
       DoneMarker],
      empty_state\<lparr>chat_sessions := [''s1'' \<mapsto> ex_session]\<rparr>)
   \<and> get_chat_history ''s1'' (empty_state\<lparr>chat_sessions := [''s1'' \<mapsto> ex_session]\<rparr>) = []"
proof -
  let ?req = "\<lparr>message = ''hi'', session_id = ''s1'', filename = None\<rparr>"
  let ?s1 = "empty_state\<lparr>chat_sessions := [''s1'' \<mapsto> ex_session]\<rparr>"
  have a: "get_or_create_session ex_env_broken_stream (session_id ?req) empty_state = (Inr ex_session, ?s1)"
    using ex_env_broken_creates by simp
  have b: "retrieve_context ex_env_broken_stream ?req ?s1 = Inr ([], [])"
    by (simp add: retrieve_context_def truthy_name_def)
  have c: "stream ex_env_broken_stream (llm ex_session)
             (build_strict_prompt [] (memory ex_session) (message ?req)) = ([''Hel''], Some ''connection reset'')"
    by (simp add: ex_env_broken_stream_def ex_env_def)
  from generate_stream_model_failure [OF a b c] show ?thesis
    by (simp add: get_chat_history_def empty_state_def)
qed

lemma chat_message_unknown_document:
  "truthy_name (filename request) = Some n \<Longrightarrow> vector_stores s n = None \<Longrightarrow>
     chat_message e request s = (Inl (HTTPException 400 ''PDF not found. Upload before chatting.''), s)"
  by (simp add: chat_message_def)

lemma generate_stream_unknown_document:
  assumes "truthy_name (filename request) = Some n" "vector_stores s n = None"
      and "get_or_create_session e (session_id request) s = (Inr sess, s1)"
  shows "generate_stream e request s = (error_events request (KeyError n), s1)"
proof -
  have "vector_stores s1 = vector_stores s"
    using assms(3) by (auto simp: get_or_create_session_def Let_def split: option.splits sum.splits)
  then have "retrieve_context e request s1 = Inl (KeyError n)"
    using assms(1,2) by (simp add: retrieve_context_def subscript_def)
  then show ?thesis using assms(3) by (simp add: generate_stream_def)
qed

text \<open>
  C2. A request that names a document without a vector store. \<^verbatim>\<open>chat_message\<close> rejects it
  before anything else and leaves the state as it is; \<^verbatim>\<open>generate_stream\<close> has no such
  check: it creates the session first, then fails on the lookup of the vector store and
  reports the key error in its error event.
\<close>

theorem generate_stream_unknown_document_creates_session:
  "generate_stream ex_env \<lparr>message = ''hi'', session_id = ''s1'', filename = Some ''a.pdf''\<rparr> empty_state =
     ([ResponseEvent \<lparr>r_content = ''Error: '' @ [apos] @ ''a.pdf'' @ [apos], r_sources = None,
                       r_session_id = ''s1'', r_success = False\<rparr>,
       DoneMarker],
      empty_state\<lparr>chat_sessions := [''s1'' \<mapsto> ex_session]\<rparr>)
   \<and> chat_sessions empty_state ''s1'' = None
   \<and> chat_message ex_env \<lparr>message = ''hi'', session_id = ''s1'', filename = Some ''a.pdf''\<rparr> empty_state =
     (Inl (HTTPException 400 ''PDF not found. Upload before chatting.''), empty_state)"
proof -
  let ?req = "\<lparr>message = ''hi'', session_id = ''s1'', filename = Some ''a.pdf''\<rparr>"
  have t: "truthy_name (filename ?req) = Some ''a.pdf''"
    by (simp add: truthy_name_def)
  have v: "vector_stores empty_state ''a.pdf'' = None"
    by (simp add: empty_state_def)
  have a: "get_or_create_session ex_env (session_id ?req) empty_state =
             (Inr ex_session, empty_state\<lparr>chat_sessions := [''s1'' \<mapsto> ex_session]\<rparr>)"
    using ex_env_creates by simp
  have "generate_stream ex_env ?req empty_state =
          (error_events ?req (KeyError ''a.pdf''), empty_state\<lparr>chat_sessions := [''s1'' \<mapsto> ex_session]\<rparr>)"
    using t v a by (rule generate_stream_unknown_document)
  moreover have "chat_message ex_env ?req empty_state =
     (Inl (HTTPException 400 ''PDF not found. Upload before chatting.''), empty_state)"
    using t v by (rule chat_message_unknown_document)
  moreover have "chat_sessions empty_state ''s1'' = None"
    by (simp add: empty_state_def)
  ultimately show ?thesis by (simp add: error_events_def)
qed

text \<open>
  C5. When the fragments of the stream concatenate to the answer the blocking call gives
  for the same prompt, both modes build that same prompt, the last event of the stream
  carries the response the batch mode returns, its content is the concatenation of the
  emitted fragments in order, and both modes leave the same state.
\<close>

lemma retrieve_context_guard:
  assumes "retrieve_context e request s1 = Inr (context, sources)"
      and "vector_stores s1 = vector_stores s"
      and "truthy_name (filename request) = Some n"
  shows "vector_stores s n \<noteq> None"
  using assms by (auto simp: retrieve_context_def subscript_def split: option.splits)

lemma get_or_create_session_vector_stores:
  "get_or_create_session e sid s = (r, s1) \<Longrightarrow> vector_stores s1 = vector_stores s"
  by (auto simp: get_or_create_session_def Let_def split: option.splits sum.splits)

theorem stream_equals_batch:
  assumes "get_or_create_session e (session_id request) s = (Inr sess, s1)"
      and "retrieve_context e request s1 = Inr (context, sources)"
      and "prompt = build_strict_prompt context (memory sess) (message request)"
      and "stream e (llm sess) prompt = (fragments, None)"
      and "invoke e (llm sess) prompt = Inr answer"
      and "concat fragments = answer"
  shows "chat_message e request s =
           (Inr \<lparr>r_content = answer, r_sources = Some sources,
                 r_session_id = session_id request, r_success = True\<rparr>,
            record_turn (session_id request) sess (message request) answer s1)
       \<and> generate_stream e request s =
           (map ChunkEvent fragments
            @ [ResponseEvent \<lparr>r_content = answer, r_sources = Some sources,
                               r_session_id = session_id request, r_success = True\<rparr>,
               DoneMarker],
            record_turn (session_id request) sess (message request) answer s1)
       \<and> concat (emitted_fragments (fst (generate_stream e request s))) = answer"
proof -
  let ?final = "\<lparr>r_content = answer, r_sources = Some sources,
                  r_session_id = session_id request, r_success = True\<rparr>"
  let ?s2 = "record_turn (session_id request) sess (message request) answer s1"
  have t: "chat_message_try e request s = (Inr ?final, ?s2)"
    using assms by (simp add: chat_message_try_def)
  have v: "vector_stores s1 = vector_stores s"
    using assms(1) by (rule get_or_create_session_vector_stores)
  have c: "chat_message e request s = (Inr ?final, ?s2)"
  proof (cases "truthy_name (filename request)")
    case None
    then show ?thesis using t by (simp add: chat_message_def)
  next
    case (Some n)
    then have "vector_stores s n \<noteq> None"
      using retrieve_context_guard [OF assms(2) v] by simp
    then show ?thesis using t Some by (simp add: chat_message_def)
  qed
  have g: "generate_stream e request s =
             (map ChunkEvent fragments @ [ResponseEvent ?final, DoneMarker], ?s2)"
    using assms by (simp add: generate_stream_def)
  have "concat (emitted_fragments (fst (generate_stream e request s))) = answer"
    using assms(6) by (simp add: g emitted_fragments_chunks)
  with c g show ?thesis by simp
qed

theorem stream_equals_batch_witness:
  "fst (chat_message ex_env \<lparr>message = ''hi'', session_id = ''s1'', filename = None\<rparr> empty_state) =
     Inr \<lparr>r_content = ''Hello world'', r_sources = Some [], r_session_id = ''s1'', r_success = True\<rparr>
   \<and> fst (generate_stream ex_env \<lparr>message = ''hi'', session_id = ''s1'', filename = None\<rparr> empty_state) =
     [ChunkEvent ''Hello'', ChunkEvent '' world'',
      ResponseEvent \<lparr>r_content = ''Hello world'', r_sources = Some [], r_session_id = ''s1'', r_success = True\<rparr>,
      DoneMarker]"
proof -
  let ?req = "\<lparr>message = ''hi'', session_id = ''s1'', filename = None\<rparr>"
  let ?s1 = "empty_state\<lparr>chat_sessions := [''s1'' \<mapsto> ex_session]\<rparr>"
  let ?p = "build_strict_prompt [] (memory ex_session) (message ?req)"
  have a: "get_or_create_session ex_env (session_id ?req) empty_state = (Inr ex_session, ?s1)"
    using ex_env_creates by simp
  have b: "retrieve_context ex_env ?req ?s1 = Inr ([], [])"
    by (simp add: retrieve_context_def truthy_name_def)
  have c: "stream ex_env (llm ex_session) ?p = ([''Hello'', '' world''], None)"
    by (simp add: ex_env_def)
  have d: "invoke ex_env (llm ex_session) ?p = Inr ''Hello world''"
    by (simp add: ex_env_def)
  have f: "concat [''Hello'', '' world''] = ''Hello world''"
    by simp
  from stream_equals_batch [OF a b refl c d f] show ?thesis
    by simp
qed

subsection \<open>History window\<close>

lemma py_last_append:
  "length recent = n \<Longrightarrow> py_last n (older @ recent) = recent"
  by (simp add: py_last_def)

lemma py_last_self:
  "length recent = n \<Longrightarrow> py_last n recent = recent"
  by (simp add: py_last_def)

text \<open>
  C6. The prompt renders the last ten messages of the history at most: the slice has at
  most ten elements, it is a suffix of the history, and messages before the last ten do
  not change the prompt. The history operation returns every message of the session, in
  the order of the memory, and a recorded turn appends the user message and then the
  answer at the end.
\<close>

theorem prompt_window_full_history:
  "length (py_last 10 h) \<le> 10
   \<and> (\<exists>older. h = older @ py_last 10 h)
   \<and> history_text h =
       (if h = [] then []
        else nl @ nl @ ''Previous conversation:'' @ nl @ join nl (map render_message (py_last 10 h)))
   \<and> (length recent = 10 \<longrightarrow>
        build_strict_prompt c (older @ recent) u = build_strict_prompt c recent u)
   \<and> (chat_sessions s sid = Some sess \<longrightarrow>
        length (get_chat_history sid s) = length (memory sess) \<and>
        map (\<lambda>x. (h_role x, h_content x)) (get_chat_history sid s) = map history_view (memory sess))
   \<and> chat_sessions (record_turn sid sess u a s) sid =
        Some (sess\<lparr>memory := memory sess @ [HumanMessage u, AIMessage a],
                    message_count := message_count sess + 1\<rparr>)"
proof -
  have 1: "length (py_last 10 h) \<le> 10"
    by (simp add: py_last_def)
  have 2: "\<exists>older. h = older @ py_last 10 h"
    unfolding py_last_def by (metis append_take_drop_id)
  have 3: "history_text h =
       (if h = [] then []
        else nl @ nl @ ''Previous conversation:'' @ nl @ join nl (map render_message (py_last 10 h)))"
    by (simp add: history_text_def)
  have 4: "length recent = 10 \<longrightarrow>
        build_strict_prompt c (older @ recent) u = build_strict_prompt c recent u"
  proof
    assume l: "length recent = 10"
    then have "recent \<noteq> []" by auto
    then have "history_text (older @ recent) = history_text recent"
      using py_last_append [OF l, of older] py_last_self [OF l]
      by (simp add: history_text_def)
    then show "build_strict_prompt c (older @ recent) u = build_strict_prompt c recent u"
      by (simp add: build_strict_prompt_def)
  qed
  have 5: "chat_sessions s sid = Some sess \<longrightarrow>
        length (get_chat_history sid s) = length (memory sess) \<and>
        map (\<lambda>x. (h_role x, h_content x)) (get_chat_history sid s) = map history_view (memory sess)"
    by (simp add: get_chat_history_def history_view_def)
  have 6: "chat_sessions (record_turn sid sess u a s) sid =
        Some (sess\<lparr>memory := memory sess @ [HumanMessage u, AIMessage a],
                    message_count := message_count sess + 1\<rparr>)"
    by (simp add: record_turn_def)
  from 1 2 3 4 5 6 show ?thesis by blast
qed

theorem prompt_window_full_history_witness:
  "length ex_recent = 10
   \<and> build_strict_prompt [] (ex_older @ ex_recent) ''q'' = build_strict_prompt [] ex_recent ''q''
   \<and> length (get_chat_history ''s1''
        (empty_state\<lparr>chat_sessions := [''s1'' \<mapsto> ex_session\<lparr>memory := ex_older @ ex_recent\<rparr>]\<rparr>)) = 12"
proof -
  have l: "length ex_recent = 10"
    by (simp add: ex_recent_def)
  have c: "chat_sessions (empty_state\<lparr>chat_sessions := [''s1'' \<mapsto> ex_session\<lparr>memory := ex_older @ ex_recent\<rparr>]\<rparr>) ''s1''
             = Some (ex_session\<lparr>memory := ex_older @ ex_recent\<rparr>)"
    by simp
  from prompt_window_full_history [of "ex_older @ ex_recent" ex_recent "[]" ex_older "''q''"
        "empty_state\<lparr>chat_sessions := [''s1'' \<mapsto> ex_session\<lparr>memory := ex_older @ ex_recent\<rparr>]\<rparr>"
        "''s1''" "ex_session\<lparr>memory := ex_older @ ex_recent\<rparr>" "''x''"] l c
  show ?thesis by (simp add: ex_older_def)
qed

subsection \<open>Configuration\<close>






end
